theory Spec2Isabelle
  imports Complex_Main
begin

section \<open>Python values, dictionaries and exceptions\<close>

text \<open>
  The program passes untyped dictionaries between its stages (\<open>Dict[str, Any]\<close>), so the
  model has one type of Python values. A dictionary is an association list in insertion
  order; its keys are values, compared the way Python compares hashable keys.
\<close>

datatype pyval =
    PNone
  | PBool bool
  | PInt int
  | PFloat real
  | PStr string
  | PList "pyval list"
  | PDict "(pyval \<times> pyval) list"

type_synonym dict = "(pyval \<times> pyval) list"

text \<open>Truth value of an object, as \<open>if source:\<close> tests it.\<close>

fun truthy :: "pyval \<Rightarrow> bool" where
  "truthy PNone = False"
| "truthy (PBool b) = b"
| "truthy (PInt i) = (i \<noteq> 0)"
| "truthy (PFloat r) = (r \<noteq> 0)"
| "truthy (PStr s) = (s \<noteq> [])"
| "truthy (PList xs) = (xs \<noteq> [])"
| "truthy (PDict d) = (d \<noteq> [])"

text \<open>Lists and dictionaries cannot be dictionary keys: using one raises TypeError.\<close>

fun hashable :: "pyval \<Rightarrow> bool" where
  "hashable (PList xs) = False"
| "hashable (PDict d) = False"
| "hashable v = True"

fun type_name :: "pyval \<Rightarrow> string" where
  "type_name PNone = ''NoneType''"
| "type_name (PBool b) = ''bool''"
| "type_name (PInt i) = ''int''"
| "type_name (PFloat r) = ''float''"
| "type_name (PStr s) = ''str''"
| "type_name (PList xs) = ''list''"
| "type_name (PDict d) = ''dict''"

text \<open>
  Equality of hashable keys: \<open>True\<close>, \<open>1\<close> and \<open>1.0\<close> are one key; strings and \<open>None\<close>
  are equal only to themselves.
\<close>

fun num_of :: "pyval \<Rightarrow> real option" where
  "num_of (PBool b) = Some (if b then 1 else 0)"
| "num_of (PInt i) = Some (of_int i)"
| "num_of (PFloat r) = Some r"
| "num_of v = None"

definition py_eq :: "pyval \<Rightarrow> pyval \<Rightarrow> bool" where
  "py_eq a b =
     (case num_of a of
        Some x \<Rightarrow> (case num_of b of Some y \<Rightarrow> x = y | None \<Rightarrow> False)
      | None \<Rightarrow> (case num_of b of Some y \<Rightarrow> False | None \<Rightarrow> a = b))"

text \<open>\<open>d.get(k)\<close>, \<open>d.get(k, default)\<close> and \<open>d[k] = v\<close>.\<close>

fun dict_lookup :: "dict \<Rightarrow> pyval \<Rightarrow> pyval option" where
  "dict_lookup [] k = None"
| "dict_lookup ((k', v) # d) k = (if py_eq k' k then Some v else dict_lookup d k)"

definition dict_get :: "dict \<Rightarrow> pyval \<Rightarrow> pyval" where
  "dict_get d k = (case dict_lookup d k of None \<Rightarrow> PNone | Some v \<Rightarrow> v)"

definition dict_get_default :: "dict \<Rightarrow> pyval \<Rightarrow> pyval \<Rightarrow> pyval" where
  "dict_get_default d k dflt = (case dict_lookup d k of None \<Rightarrow> dflt | Some v \<Rightarrow> v)"

text \<open>
  Assignment keeps the position and the key object of an entry that is already there,
  and appends a new entry otherwise.
\<close>

fun dict_set :: "dict \<Rightarrow> pyval \<Rightarrow> pyval \<Rightarrow> dict" where
  "dict_set [] k v = [(k, v)]"
| "dict_set ((k', v') # d) k v =
     (if py_eq k' k then (k', v) # d else (k', v') # dict_set d k v)"

definition dict_keys :: "dict \<Rightarrow> pyval list" where
  "dict_keys d = map fst d"

text \<open>
  A raised exception is identified by what \<open>str(e)\<close> returns. The exceptions of the model
  are instances of \<open>Exception\<close>, the class every handler of the program names; signals
  that derive from \<open>BaseException\<close> alone (interpreter exit, keyboard interrupt, task
  cancellation) are not behaviours of the program's stages and are not modelled.
  A computation that may raise returns \<open>exn + 'a\<close>, with \<open>Inl\<close> the raise.
\<close>

datatype exn = Exn (exn_str: string)

definition bind_exn :: "exn + 'a \<Rightarrow> ('a \<Rightarrow> exn + 'b) \<Rightarrow> exn + 'b" where
  "bind_exn r f = (case r of Inl e \<Rightarrow> Inl e | Inr v \<Rightarrow> f v)"

text \<open>\<open>try: body  except Exception as e: handler\<close>.\<close>

definition try_except :: "exn + 'a \<Rightarrow> (exn \<Rightarrow> exn + 'a) \<Rightarrow> exn + 'a" where
  "try_except body handler = (case body of Inl e \<Rightarrow> handler e | Inr v \<Rightarrow> Inr v)"

text \<open>\<open>str(n)\<close> of an integer, in decimal.\<close>

definition digit_char :: "nat \<Rightarrow> char" where
  "digit_char n = ''0123456789'' ! (n mod 10)"

fun str_nat :: "nat \<Rightarrow> string" where
  "str_nat n = (if n < 10 then [digit_char n] else str_nat (n div 10) @ [digit_char n])"

declare str_nat.simps [simp del]

definition str_int :: "int \<Rightarrow> string" where
  "str_int i = (if i < 0 then CHR ''-'' # str_nat (nat (- i)) else str_nat (nat i))"

section \<open>The outside world of one research cycle\<close>

text \<open>
  Everything the program reads from outside is a field of \<open>world\<close>: whether creating the
  HTTP session raises, the outcome of each GET (a transport exception, or a response with
  its status and the outcome of parsing its body as JSON), whether the join of the fetch
  tasks is hit by a fault that does not come from a fetch task, and the readings of the
  clock, one for each place that calls \<open>datetime.now().isoformat()\<close>.
\<close>

record response =
  status :: int
  json :: "exn + pyval"

record world =
  session_new :: "exn option"
  http_get :: "string \<Rightarrow> exn + response"
  join_fault :: "exn option"
  now_at :: "string \<Rightarrow> string"

datatype session = SessionOpen | SessionClosed

section \<open>MarketAnalyzer: the source fetchers\<close>

definition api_endpoints :: "(string \<times> string) list" where
  "api_endpoints =
     [(''trends'', ''https://api.example.com/trends''),
      (''competitors'', ''https://api.example.com/competitors''),
      (''market_data'', ''https://api.example.com/market-data'')]"

text \<open>\<open>self.api_endpoints[key]\<close>: a missing key raises KeyError, whose text is the quoted key.\<close>

definition endpoint :: "string \<Rightarrow> exn + string" where
  "endpoint k =
     (case map_of api_endpoints k of
        None \<Rightarrow> Inl (Exn ([CHR 0x27] @ k @ [CHR 0x27]))
      | Some url \<Rightarrow> Inr url)"

text \<open>
  \<open>_gather_industry_trends\<close>, \<open>_gather_competitor_data\<close> and \<open>_gather_market_demands\<close>:
  one GET inside \<open>try\<close>; status 200 parses the body, any other status is reported, and
  every exception of the body is turned into an error entry.
\<close>

definition gather_industry_trends :: "world \<Rightarrow> exn + dict" where
  "gather_industry_trends w =
     try_except
       (bind_exn (endpoint ''trends'') (\<lambda>url.
        bind_exn (http_get w url) (\<lambda>resp.
          if status resp = 200 then
            bind_exn (json resp) (\<lambda>data.
              Inr [(PStr ''source'', PStr ''industry_trends''),
                   (PStr ''data'', data),
                   (PStr ''timestamp'', PStr (now_at w ''industry_trends''))])
          else
            Inr [(PStr ''source'', PStr ''industry_trends''),
                 (PStr ''error'', PStr (''Failed to fetch data: '' @ str_int (status resp))),
                 (PStr ''timestamp'', PStr (now_at w ''industry_trends''))])))
       (\<lambda>e. Inr [(PStr ''source'', PStr ''industry_trends''),
                 (PStr ''error'', PStr (exn_str e)),
                 (PStr ''timestamp'', PStr (now_at w ''industry_trends''))])"

definition gather_competitor_data :: "world \<Rightarrow> exn + dict" where
  "gather_competitor_data w =
     try_except
       (bind_exn (endpoint ''competitors'') (\<lambda>url.
        bind_exn (http_get w url) (\<lambda>resp.
          if status resp = 200 then
            bind_exn (json resp) (\<lambda>data.
              Inr [(PStr ''source'', PStr ''competitor_data''),
                   (PStr ''data'', data),
                   (PStr ''timestamp'', PStr (now_at w ''competitor_data''))])
          else
            Inr [(PStr ''source'', PStr ''competitor_data''),
                 (PStr ''error'', PStr (''Failed to fetch data: '' @ str_int (status resp))),
                 (PStr ''timestamp'', PStr (now_at w ''competitor_data''))])))
       (\<lambda>e. Inr [(PStr ''source'', PStr ''competitor_data''),
                 (PStr ''error'', PStr (exn_str e)),
                 (PStr ''timestamp'', PStr (now_at w ''competitor_data''))])"

definition gather_market_demands :: "world \<Rightarrow> exn + dict" where
  "gather_market_demands w =
     try_except
       (bind_exn (endpoint ''market_data'') (\<lambda>url.
        bind_exn (http_get w url) (\<lambda>resp.
          if status resp = 200 then
            bind_exn (json resp) (\<lambda>data.
              Inr [(PStr ''source'', PStr ''market_demands''),
                   (PStr ''data'', data),
                   (PStr ''timestamp'', PStr (now_at w ''market_demands''))])
          else
            Inr [(PStr ''source'', PStr ''market_demands''),
                 (PStr ''error'', PStr (''Failed to fetch data: '' @ str_int (status resp))),
                 (PStr ''timestamp'', PStr (now_at w ''market_demands''))])))
       (\<lambda>e. Inr [(PStr ''source'', PStr ''market_demands''),
                 (PStr ''error'', PStr (exn_str e)),
                 (PStr ''timestamp'', PStr (now_at w ''market_demands''))])"

text \<open>\<open>_gather_social_media_trends\<close>: no request, a constant payload.\<close>

definition gather_social_media_trends :: "world \<Rightarrow> exn + dict" where
  "gather_social_media_trends w =
     Inr [(PStr ''source'', PStr ''social_media''),
          (PStr ''data'', PDict [(PStr ''trends'', PList [])]),
          (PStr ''timestamp'', PStr (now_at w ''social_media''))]"

section \<open>MarketAnalyzer: combining and gathering\<close>

text \<open>
  \<open>_combine_data\<close>: the loop over the results, with the \<open>sources\<close> dictionary as the
  accumulator. A result without a truthy \<open>source\<close> is skipped; a truthy source that is
  not hashable makes the assignment raise TypeError.
\<close>

definition source_entry :: "dict \<Rightarrow> pyval" where
  "source_entry result =
     PDict [(PStr ''data'', dict_get_default result (PStr ''data'') (PDict [])),
            (PStr ''error'', dict_get result (PStr ''error'')),
            (PStr ''timestamp'', dict_get result (PStr ''timestamp''))]"

fun combine_loop :: "dict \<Rightarrow> dict list \<Rightarrow> exn + dict" where
  "combine_loop sources [] = Inr sources"
| "combine_loop sources (result # results) =
     (let source = dict_get result (PStr ''source'') in
      if truthy source then
        if hashable source then
          combine_loop (dict_set sources source (source_entry result)) results
        else
          Inl (Exn (''unhashable type: '' @ [CHR 0x27] @ type_name source @ [CHR 0x27]))
      else combine_loop sources results)"

definition combine_data :: "string \<Rightarrow> dict list \<Rightarrow> exn + dict" where
  "combine_data now results =
     bind_exn (combine_loop [] results) (\<lambda>sources.
       Inr [(PStr ''timestamp'', PStr now), (PStr ''sources'', PDict sources)])"

text \<open>
  \<open>asyncio.gather(*tasks)\<close>: the results of the four tasks in the order of the task
  list, once all four have finished; the first exception of a task, or a fault of the
  join itself, is raised instead.
\<close>

definition join_tasks :: "world \<Rightarrow> exn + dict list" where
  "join_tasks w =
     (case join_fault w of
        Some e \<Rightarrow> Inl e
      | None \<Rightarrow>
          bind_exn (gather_industry_trends w) (\<lambda>r1.
          bind_exn (gather_competitor_data w) (\<lambda>r2.
          bind_exn (gather_market_demands w) (\<lambda>r3.
          bind_exn (gather_social_media_trends w) (\<lambda>r4.
            Inr [r1, r2, r3, r4])))))"

text \<open>
  \<open>try: body  finally: cleanup\<close> over a state: the cleanup runs on the state the body
  left, whether the body returned or raised, and the body's outcome is passed on.
\<close>

definition try_finally ::
  "('s \<Rightarrow> 's \<times> (exn + 'a)) \<Rightarrow> ('s \<Rightarrow> 's) \<Rightarrow> 's \<Rightarrow> 's \<times> (exn + 'a)" where
  "try_finally body cleanup s = (case body s of (s', r) \<Rightarrow> (cleanup s', r))"

definition close_session :: "session option \<Rightarrow> session option" where
  "close_session s = (case s of None \<Rightarrow> None | Some x \<Rightarrow> Some SessionClosed)"

text \<open>
  \<open>gather_data\<close>. The state is the analyzer's \<open>self.session\<close> (\<open>None\<close> before the first
  gather). The session is created before the \<open>try\<close>: when its creation raises, nothing
  was assigned and nothing is closed. Closing a session does not raise.
\<close>

definition gather_data :: "world \<Rightarrow> session option \<Rightarrow> session option \<times> (exn + dict)" where
  "gather_data w s =
     (case session_new w of
        Some e \<Rightarrow> (s, Inl e)
      | None \<Rightarrow>
          try_finally
            (\<lambda>s1. (s1, bind_exn (join_tasks w) (combine_data (now_at w ''combine''))))
            close_session
            (Some SessionOpen))"

section \<open>MarketAnalyzer: the analysis facets\<close>

text \<open>
  The six facet methods and the recommendation step of the source. Each returns its
  initial, empty structure and does not read the bundle.
\<close>

definition analyze_trends :: "pyval \<Rightarrow> exn + pyval" where
  "analyze_trends data =
     Inr (PDict [(PStr ''emerging_trends'', PList []),
                 (PStr ''declining_trends'', PList []),
                 (PStr ''stable_trends'', PList [])])"

definition analyze_competitors :: "pyval \<Rightarrow> exn + pyval" where
  "analyze_competitors data =
     Inr (PDict [(PStr ''market_leaders'', PList []),
                 (PStr ''emerging_competitors'', PList []),
                 (PStr ''competitive_advantages'', PDict [])])"

definition analyzer_identify_opportunities :: "pyval \<Rightarrow> exn + pyval" where
  "analyzer_identify_opportunities data = Inr (PList [])"

definition analyzer_assess_risks :: "pyval \<Rightarrow> exn + pyval" where
  "analyzer_assess_risks data = Inr (PList [])"

definition analyze_sentiment :: "pyval \<Rightarrow> exn + pyval" where
  "analyze_sentiment data =
     Inr (PDict [(PStr ''overall'', PFloat 0),
                 (PStr ''by_sector'', PDict []),
                 (PStr ''by_product'', PDict [])])"

definition assess_growth_potential :: "pyval \<Rightarrow> exn + pyval" where
  "assess_growth_potential data =
     Inr (PDict [(PStr ''short_term'', PDict []),
                 (PStr ''medium_term'', PDict []),
                 (PStr ''long_term'', PDict [])])"

definition analyzer_generate_recommendations :: "pyval \<Rightarrow> exn + pyval" where
  "analyzer_generate_recommendations analysis = Inr (PList [])"

text \<open>
  \<open>analyze_data\<close> reaches its facets through \<open>self\<close>, so its \<open>try\<close>/\<open>except\<close> is modelled
  over a table of facet methods, each of which may raise; the table of the source is
  \<open>analyzer_methods\<close>. The dictionary display evaluates the facets in the order written,
  then the clock, then the recommendation step on the assembled analysis.
\<close>

record facets =
  f_analyze_trends :: "pyval \<Rightarrow> exn + pyval"
  f_analyze_competitors :: "pyval \<Rightarrow> exn + pyval"
  f_identify_opportunities :: "pyval \<Rightarrow> exn + pyval"
  f_assess_risks :: "pyval \<Rightarrow> exn + pyval"
  f_analyze_sentiment :: "pyval \<Rightarrow> exn + pyval"
  f_assess_growth_potential :: "pyval \<Rightarrow> exn + pyval"
  f_generate_recommendations :: "pyval \<Rightarrow> exn + pyval"

definition analyzer_methods :: facets where
  "analyzer_methods =
     \<lparr> f_analyze_trends = analyze_trends,
       f_analyze_competitors = analyze_competitors,
       f_identify_opportunities = analyzer_identify_opportunities,
       f_assess_risks = analyzer_assess_risks,
       f_analyze_sentiment = analyze_sentiment,
       f_assess_growth_potential = assess_growth_potential,
       f_generate_recommendations = analyzer_generate_recommendations \<rparr>"

definition analysis_of ::
  "pyval \<Rightarrow> pyval \<Rightarrow> pyval \<Rightarrow> pyval \<Rightarrow> pyval \<Rightarrow> pyval \<Rightarrow> dict" where
  "analysis_of mt ca oa rf ms gp =
     [(PStr ''market_trends'', mt),
      (PStr ''competitor_analysis'', ca),
      (PStr ''opportunity_areas'', oa),
      (PStr ''risk_factors'', rf),
      (PStr ''market_sentiment'', ms),
      (PStr ''growth_potential'', gp)]"

definition analyze_body :: "facets \<Rightarrow> string \<Rightarrow> pyval \<Rightarrow> exn + dict" where
  "analyze_body F now data =
     bind_exn (f_analyze_trends F data) (\<lambda>mt.
     bind_exn (f_analyze_competitors F data) (\<lambda>ca.
     bind_exn (f_identify_opportunities F data) (\<lambda>oa.
     bind_exn (f_assess_risks F data) (\<lambda>rf.
     bind_exn (f_analyze_sentiment F data) (\<lambda>ms.
     bind_exn (f_assess_growth_potential F data) (\<lambda>gp.
     bind_exn (f_generate_recommendations F (PDict (analysis_of mt ca oa rf ms gp))) (\<lambda>recs.
       Inr [(PStr ''timestamp'', PStr now),
            (PStr ''analysis'', PDict (analysis_of mt ca oa rf ms gp)),
            (PStr ''recommendations'', recs)])))))))"

definition analyze_data_with :: "facets \<Rightarrow> string \<Rightarrow> pyval \<Rightarrow> exn + dict" where
  "analyze_data_with F now data =
     try_except (analyze_body F now data)
       (\<lambda>e. Inl (Exn (''Error analyzing market data: '' @ exn_str e)))"

definition analyze_data :: "world \<Rightarrow> pyval \<Rightarrow> exn + dict" where
  "analyze_data w data = analyze_data_with analyzer_methods (now_at w ''analyze'') data"

section \<open>TrendDetector\<close>

text \<open>
  The agent calls \<open>detect_trends\<close> and \<open>identify_opportunities\<close> of a \<open>TrendDetector\<close>,
  whose module is not among the sources: the agent is modelled over any pair of such
  methods, each of which may raise.
\<close>

record trend_detector =
  td_detect_trends :: "pyval \<Rightarrow> exn + pyval list"
  td_identify_opportunities :: "pyval list \<Rightarrow> exn + pyval list"

text \<open>
  Modelled from the spec: \<open>TrendDetector.identify_opportunities\<close> (module
  \<open>utils/trend_detector.py\<close> is missing from the sources). The spec's words are:
  "pure function of its input sequence; empty input yields empty output (no error)".
  The derivation of opportunities from a non-empty sequence is left open by the spec and
  is the parameter \<open>derive\<close>, which may raise.
\<close>

definition identify_opportunities ::
  "(pyval list \<Rightarrow> exn + pyval list) \<Rightarrow> pyval list \<Rightarrow> exn + pyval list" where
  "identify_opportunities derive trends = (if trends = [] then Inr [] else derive trends)"

section \<open>MarketResearchAgent\<close>

record agent_state =
  logger :: "string list"
  analyzer_session :: "session option"

definition agent_gather_market_data ::
  "world \<Rightarrow> session option \<Rightarrow> session option \<times> (exn + pyval)" where
  "agent_gather_market_data w s =
     (case gather_data w s of (s', r) \<Rightarrow> (s', bind_exn r (\<lambda>bundle. Inr (PDict bundle))))"

definition agent_analyze_market_data :: "world \<Rightarrow> pyval \<Rightarrow> exn + pyval" where
  "agent_analyze_market_data w data =
     bind_exn (analyze_data w data) (\<lambda>report. Inr (PDict report))"

definition agent_detect_trends :: "trend_detector \<Rightarrow> pyval \<Rightarrow> exn + pyval list" where
  "agent_detect_trends td data = td_detect_trends td data"

definition agent_identify_opportunities ::
  "trend_detector \<Rightarrow> pyval list \<Rightarrow> exn + pyval list" where
  "agent_identify_opportunities td trends = td_identify_opportunities td trends"

definition extract_key_findings :: "pyval \<Rightarrow> pyval" where
  "extract_key_findings analysis = PList []"

definition agent_generate_recommendations :: "pyval list \<Rightarrow> pyval" where
  "agent_generate_recommendations trends = PList []"

definition agent_assess_risks :: "pyval \<Rightarrow> pyval list \<Rightarrow> pyval" where
  "agent_assess_risks analysis trends = PDict []"

definition generate_insights :: "pyval \<Rightarrow> pyval list \<Rightarrow> exn + pyval" where
  "generate_insights analysis trends =
     Inr (PDict [(PStr ''key_findings'', extract_key_findings analysis),
                 (PStr ''recommendations'', agent_generate_recommendations trends),
                 (PStr ''risk_assessment'', agent_assess_risks analysis trends)])"

text \<open>
  The body of \<open>run\<close> over its five stage calls, which it makes through \<open>self\<close>: the
  outcome of the gather, then the four later stages as functions of what they are given.
  The handler logs the message and returns the error result. The logger is set up by
  \<open>BaseAgent\<close>, whose module is not among the sources: logging a line appends it to the
  lines logged so far and does not raise.
\<close>

definition success_result :: "pyval \<Rightarrow> pyval \<Rightarrow> pyval \<Rightarrow> pyval \<Rightarrow> dict" where
  "success_result market_analysis trends opportunities insights =
     [(PStr ''status'', PStr ''success''),
      (PStr ''market_analysis'', market_analysis),
      (PStr ''trends'', trends),
      (PStr ''opportunities'', opportunities),
      (PStr ''insights'', insights)]"

definition error_result :: "exn \<Rightarrow> dict" where
  "error_result e = [(PStr ''status'', PStr ''error''), (PStr ''error'', PStr (exn_str e))]"

definition run_stages ::
  "(exn + pyval) \<Rightarrow> (pyval \<Rightarrow> exn + pyval) \<Rightarrow> (pyval \<Rightarrow> exn + pyval list) \<Rightarrow>
   (pyval list \<Rightarrow> exn + pyval list) \<Rightarrow> (pyval \<Rightarrow> pyval list \<Rightarrow> exn + pyval) \<Rightarrow>
   string list \<Rightarrow> string list \<times> (exn + dict)" where
  "run_stages gather analyze detect identify synthesize lines =
     (case
        bind_exn gather (\<lambda>market_data.
        bind_exn (analyze market_data) (\<lambda>market_analysis.
        bind_exn (detect market_data) (\<lambda>trends.
        bind_exn (identify trends) (\<lambda>opportunities.
        bind_exn (synthesize market_analysis trends) (\<lambda>insights.
          Inr (success_result market_analysis (PList trends) (PList opportunities) insights))))))
      of
        Inr result \<Rightarrow> (lines, Inr result)
      | Inl e \<Rightarrow> (lines @ [''Error in market research: '' @ exn_str e], Inr (error_result e)))"

definition run :: "world \<Rightarrow> trend_detector \<Rightarrow> agent_state \<Rightarrow> agent_state \<times> (exn + dict)" where
  "run w td st =
     (case agent_gather_market_data w (analyzer_session st) of
        (s', gathered) \<Rightarrow>
          (case run_stages gathered (agent_analyze_market_data w) (agent_detect_trends td)
                  (agent_identify_opportunities td) generate_insights (logger st) of
             (lines', r) \<Rightarrow> (\<lparr> logger = lines', analyzer_session = s' \<rparr>, r)))"

section \<open>Contracts and scenarios\<close>

text \<open>
  What a \<open>SourceResult\<close> must hold for a given outcome of the GET: the source tag and
  the timestamp always; for a transport exception or a body that does not parse, the
  exception's text as \<open>error\<close> and no \<open>data\<close>; for a status other than 200, the
  message with the status and no \<open>data\<close>; for status 200 with a parsed body, the payload
  as \<open>data\<close> and no \<open>error\<close>.
\<close>

definition source_result_for :: "string \<Rightarrow> string \<Rightarrow> exn + response \<Rightarrow> dict \<Rightarrow> bool" where
  "source_result_for tag now outcome r =
     (dict_lookup r (PStr ''source'') = Some (PStr tag) \<and>
      dict_lookup r (PStr ''timestamp'') = Some (PStr now) \<and>
      (case outcome of
         Inl e \<Rightarrow>
           dict_lookup r (PStr ''error'') = Some (PStr (exn_str e)) \<and>
           dict_lookup r (PStr ''data'') = None
       | Inr resp \<Rightarrow>
           if status resp \<noteq> 200 then
             dict_lookup r (PStr ''error'') =
               Some (PStr (''Failed to fetch data: '' @ str_int (status resp))) \<and>
             dict_lookup r (PStr ''data'') = None
           else
             (case json resp of
                Inl e \<Rightarrow>
                  dict_lookup r (PStr ''error'') = Some (PStr (exn_str e)) \<and>
                  dict_lookup r (PStr ''data'') = None
              | Inr payload \<Rightarrow>
                  dict_lookup r (PStr ''data'') = Some payload \<and>
                  dict_lookup r (PStr ''error'') = None)))"

text \<open>
  The scenario of the spec: the trends endpoint answers 500, the two other endpoints
  answer 200 with a payload.
\<close>

definition scenario_world :: world where
  "scenario_world =
     \<lparr> session_new = None,
       http_get = (\<lambda>url.
         if url = ''https://api.example.com/trends''
         then Inr \<lparr> status = 500, json = Inl (Exn ''Expecting value'') \<rparr>
         else Inr \<lparr> status = 200, json = Inr (PDict [(PStr ''items'', PList [PInt 1])]) \<rparr>),
       join_fault = None,
       now_at = (\<lambda>site. ''2024-01-01T00:00:00'') \<rparr>"

text \<open>The scenario again, with a fault that hits the join of the fetch tasks.\<close>

definition faulty_join_world :: world where
  "faulty_join_world = scenario_world \<lparr> join_fault := Some (Exn ''join interrupted'') \<rparr>"

text \<open>The four configured sources, in the order their tasks are listed.\<close>

definition source_ids :: "pyval list" where
  "source_ids =
     [PStr ''industry_trends'', PStr ''competitor_data'', PStr ''market_demands'',
      PStr ''social_media'']"

text \<open>A fetch result claims the source identifier \<open>sid\<close>.\<close>

definition claims_source :: "string \<Rightarrow> dict \<Rightarrow> bool" where
  "claims_source sid result = (dict_get result (PStr ''source'') = PStr sid)"

text \<open>The entries a \<open>sources\<close> mapping holds under the key \<open>sid\<close>.\<close>

definition entries_for :: "string \<Rightarrow> dict \<Rightarrow> pyval list" where
  "entries_for sid sources = map snd (filter (\<lambda>kv. fst kv = PStr sid) sources)"

text \<open>
  A joined result list in which two results claim \<open>industry_trends\<close> (the later one
  failed) and the last result has no source tag.
\<close>

definition dup_results :: "dict list" where
  "dup_results =
     [[(PStr ''source'', PStr ''industry_trends''), (PStr ''data'', PInt 1),
       (PStr ''timestamp'', PStr ''t1'')],
      [(PStr ''source'', PStr ''social_media''), (PStr ''data'', PInt 2),
       (PStr ''timestamp'', PStr ''t2'')],
      [(PStr ''source'', PStr ''industry_trends''), (PStr ''error'', PStr ''timeout''),
       (PStr ''timestamp'', PStr ''t3'')],
      [(PStr ''data'', PInt 4), (PStr ''timestamp'', PStr ''t4'')]]"

text \<open>
  An entry of the \<open>sources\<close> mapping comes from a fetch result with a truthy source
  tag equal to its key, and is the dictionary of exactly \<open>data\<close>, \<open>error\<close> and
  \<open>timestamp\<close>: \<open>data\<close> is the empty mapping when the result has no \<open>data\<close> key,
  \<open>error\<close> is \<open>None\<close> when it has no \<open>error\<close> key.
\<close>

definition entry_origin :: "dict list \<Rightarrow> pyval \<times> pyval \<Rightarrow> bool" where
  "entry_origin results kv =
     (\<exists>r \<in> set results.
        truthy (dict_get r (PStr ''source'')) \<and>
        py_eq (fst kv) (dict_get r (PStr ''source'')) \<and>
        snd kv =
          PDict [(PStr ''data'',
                  (case dict_lookup r (PStr ''data'') of None \<Rightarrow> PDict [] | Some d \<Rightarrow> d)),
                 (PStr ''error'',
                  (case dict_lookup r (PStr ''error'') of None \<Rightarrow> PNone | Some e \<Rightarrow> e)),
                 (PStr ''timestamp'', dict_get r (PStr ''timestamp''))])"

text \<open>
  The two shapes of a \<open>CycleResult\<close>: exactly the keys \<open>status\<close>, \<open>market_analysis\<close>,
  \<open>trends\<close>, \<open>opportunities\<close>, \<open>insights\<close> with status \<open>success\<close>, or exactly the keys
  \<open>status\<close> and \<open>error\<close> with status \<open>error\<close> and a message.
\<close>

definition cycle_result_shaped :: "dict \<Rightarrow> bool" where
  "cycle_result_shaped r =
     ((dict_keys r =
         [PStr ''status'', PStr ''market_analysis'', PStr ''trends'', PStr ''opportunities'',
          PStr ''insights''] \<and>
       dict_lookup r (PStr ''status'') = Some (PStr ''success'')) \<or>
      (dict_keys r = [PStr ''status'', PStr ''error''] \<and>
       dict_lookup r (PStr ''status'') = Some (PStr ''error'') \<and>
       (case dict_lookup r (PStr ''error'') of Some (PStr m) \<Rightarrow> True | _ \<Rightarrow> False)))"

text \<open>Two trend detectors for the scenarios, and an agent before its first cycle.\<close>

definition failing_detector :: trend_detector where
  "failing_detector =
     \<lparr> td_detect_trends = (\<lambda>data. Inl (Exn ''detector failed'')),
       td_identify_opportunities = (\<lambda>trends. Inr []) \<rparr>"

definition quiet_detector :: trend_detector where
  "quiet_detector =
     \<lparr> td_detect_trends = (\<lambda>data. Inr []),
       td_identify_opportunities = identify_opportunities (\<lambda>trends. Inl (Exn ''no rule'')) \<rparr>"

definition idle_agent :: agent_state where
  "idle_agent = \<lparr> logger = [], analyzer_session = None \<rparr>"

text \<open>
  The exceptions the six facets raise on a bundle, in the order \<open>analyze_data\<close>
  evaluates them; the first one is the one its \<open>try\<close> sees.
\<close>

definition fault_of :: "exn + 'a \<Rightarrow> exn list" where
  "fault_of r = (case r of Inl e \<Rightarrow> [e] | Inr v \<Rightarrow> [])"

definition facet_faults :: "facets \<Rightarrow> pyval \<Rightarrow> exn list" where
  "facet_faults F data =
     fault_of (f_analyze_trends F data) @
     fault_of (f_analyze_competitors F data) @
     fault_of (f_identify_opportunities F data) @
     fault_of (f_assess_risks F data) @
     fault_of (f_analyze_sentiment F data) @
     fault_of (f_assess_growth_potential F data)"

text \<open>The facets of the source, with two facets or the recommendation step failing.\<close>

definition broken_sentiment :: facets where
  "broken_sentiment =
     analyzer_methods
       \<lparr> f_analyze_sentiment := (\<lambda>data. Inl (Exn ''no lexicon'')),
         f_assess_growth_potential := (\<lambda>data. Inl (Exn ''no history'')) \<rparr>"

definition broken_recommendations :: facets where
  "broken_recommendations =
     analyzer_methods \<lparr> f_generate_recommendations := (\<lambda>analysis. Inl (Exn ''no rules'')) \<rparr>"

text \<open>
  A fetch fails when the GET raises, the status is not 200, or the body does not parse.
\<close>

definition fetch_failed :: "exn + response \<Rightarrow> bool" where
  "fetch_failed outcome =
     (case outcome of
        Inl e \<Rightarrow> True
      | Inr resp \<Rightarrow> status resp \<noteq> 200 \<or> isl (json resp))"

definition all_fetches_fail :: "world \<Rightarrow> bool" where
  "all_fetches_fail w =
     (fetch_failed (http_get w ''https://api.example.com/trends'') \<and>
      fetch_failed (http_get w ''https://api.example.com/competitors'') \<and>
      fetch_failed (http_get w ''https://api.example.com/market-data''))"

text \<open>
  The empty shapes: the analysis whose six facets are empty lists and mappings with a
  zero sentiment, the report around it, and the insights without content.
\<close>

definition empty_analysis :: dict where
  "empty_analysis =
     [(PStr ''market_trends'',
       PDict [(PStr ''emerging_trends'', PList []), (PStr ''declining_trends'', PList []),
              (PStr ''stable_trends'', PList [])]),
      (PStr ''competitor_analysis'',
       PDict [(PStr ''market_leaders'', PList []), (PStr ''emerging_competitors'', PList []),
              (PStr ''competitive_advantages'', PDict [])]),
      (PStr ''opportunity_areas'', PList []),
      (PStr ''risk_factors'', PList []),
      (PStr ''market_sentiment'',
       PDict [(PStr ''overall'', PFloat 0), (PStr ''by_sector'', PDict []),
              (PStr ''by_product'', PDict [])]),
      (PStr ''growth_potential'',
       PDict [(PStr ''short_term'', PDict []), (PStr ''medium_term'', PDict []),
              (PStr ''long_term'', PDict [])])]"

definition degraded_report :: "string \<Rightarrow> pyval" where
  "degraded_report now =
     PDict [(PStr ''timestamp'', PStr now),
            (PStr ''analysis'', PDict empty_analysis),
            (PStr ''recommendations'', PList [])]"

definition empty_insights :: pyval where
  "empty_insights =
     PDict [(PStr ''key_findings'', PList []),
            (PStr ''recommendations'', PList []),
            (PStr ''risk_assessment'', PDict [])]"

text \<open>
  An entry of a failed source: an empty \<open>data\<close> mapping, an error message and a
  timestamp.
\<close>

definition failed_entry :: "pyval \<Rightarrow> bool" where
  "failed_entry entry =
     (case entry of
        PDict [(PStr k1, PDict []), (PStr k2, PStr m), (PStr k3, PStr ts)] \<Rightarrow>
          k1 = ''data'' \<and> k2 = ''error'' \<and> k3 = ''timestamp''
      | _ \<Rightarrow> False)"

text \<open>A world in which every GET raises a transport exception.\<close>

definition offline_world :: world where
  "offline_world =
     \<lparr> session_new = None,
       http_get = (\<lambda>url. Inl (Exn ''Cannot connect to host'')),
       join_fault = None,
       now_at = (\<lambda>site. ''2024-01-01T00:00:00'') \<rparr>"

section \<open>Basic facts\<close>

lemma py_eq_PStr_left: "py_eq (PStr a) k = (k = PStr a)"
  by (cases k) (auto simp: py_eq_def)

lemma py_eq_PStr_right: "py_eq k (PStr a) = (k = PStr a)"
  by (cases k) (auto simp: py_eq_def)

lemma bind_exn_simps:
  "bind_exn (Inl e) f = Inl e" "bind_exn (Inr v) f = f v"
  by (simp_all add: bind_exn_def)

lemma try_except_simps:
  "try_except (Inl e) h = h e" "try_except (Inr v) h = Inr v"
  by (simp_all add: try_except_def)

lemma endpoint_simps:
  "endpoint ''trends'' = Inr ''https://api.example.com/trends''"
  "endpoint ''competitors'' = Inr ''https://api.example.com/competitors''"
  "endpoint ''market_data'' = Inr ''https://api.example.com/market-data''"
  by (simp_all add: endpoint_def api_endpoints_def)

lemmas fetch_simps = bind_exn_simps try_except_simps endpoint_simps py_eq_PStr_left


section \<open>The source fetchers\<close>

lemma industry_trends_result:
  "\<exists>r. gather_industry_trends w = Inr r \<and>
     source_result_for ''industry_trends'' (now_at w ''industry_trends'')
       (http_get w ''https://api.example.com/trends'') r"
proof (cases "http_get w ''https://api.example.com/trends''")
  case (Inl e)
  then show ?thesis
    by (simp add: gather_industry_trends_def source_result_for_def fetch_simps)
next
  case (Inr resp)
  then show ?thesis
    by (cases "json resp")
       (simp_all add: gather_industry_trends_def source_result_for_def fetch_simps)
qed

lemma competitor_data_result:
  "\<exists>r. gather_competitor_data w = Inr r \<and>
     source_result_for ''competitor_data'' (now_at w ''competitor_data'')
       (http_get w ''https://api.example.com/competitors'') r"
proof (cases "http_get w ''https://api.example.com/competitors''")
  case (Inl e)
  then show ?thesis
    by (simp add: gather_competitor_data_def source_result_for_def fetch_simps)
next
  case (Inr resp)
  then show ?thesis
    by (cases "json resp")
       (simp_all add: gather_competitor_data_def source_result_for_def fetch_simps)
qed

lemma market_demands_result:
  "\<exists>r. gather_market_demands w = Inr r \<and>
     source_result_for ''market_demands'' (now_at w ''market_demands'')
       (http_get w ''https://api.example.com/market-data'') r"
proof (cases "http_get w ''https://api.example.com/market-data''")
  case (Inl e)
  then show ?thesis
    by (simp add: gather_market_demands_def source_result_for_def fetch_simps)
next
  case (Inr resp)
  then show ?thesis
    by (cases "json resp")
       (simp_all add: gather_market_demands_def source_result_for_def fetch_simps)
qed



text \<open>
  C8. For every state of the world the social-media fetcher returns the same stub result:
  source \<open>social_media\<close>, data \<open>{trends: []}\<close>, a timestamp, and no \<open>error\<close> key.
\<close>

theorem social_media_stub:
  "\<exists>r. gather_social_media_trends w = Inr r \<and>
     r = [(PStr ''source'', PStr ''social_media''),
          (PStr ''data'', PDict [(PStr ''trends'', PList [])]),
          (PStr ''timestamp'', PStr (now_at w ''social_media''))] \<and>
     dict_keys r = [PStr ''source'', PStr ''data'', PStr ''timestamp''] \<and>
     dict_lookup r (PStr ''error'') = None"
  by (simp add: gather_social_media_trends_def dict_keys_def py_eq_PStr_left)

section \<open>Gathering\<close>

lemma source_result_for_source:
  "source_result_for tag now outcome r \<Longrightarrow> dict_get r (PStr ''source'') = PStr tag"
  by (simp add: source_result_for_def dict_get_def)

lemma combine_four:
  assumes "dict_get r1 (PStr ''source'') = PStr ''industry_trends''"
    and "dict_get r2 (PStr ''source'') = PStr ''competitor_data''"
    and "dict_get r3 (PStr ''source'') = PStr ''market_demands''"
    and "dict_get r4 (PStr ''source'') = PStr ''social_media''"
  shows "combine_data now [r1, r2, r3, r4] =
     Inr [(PStr ''timestamp'', PStr now),
          (PStr ''sources'',
           PDict [(PStr ''industry_trends'', source_entry r1),
                  (PStr ''competitor_data'', source_entry r2),
                  (PStr ''market_demands'', source_entry r3),
                  (PStr ''social_media'', source_entry r4)])]"
  using assms by (simp add: combine_data_def bind_exn_simps py_eq_PStr_left)

lemma social_media_source:
  "\<exists>r. gather_social_media_trends w = Inr r \<and> dict_get r (PStr ''source'') = PStr ''social_media''"
  by (simp add: gather_social_media_trends_def dict_get_def py_eq_PStr_left)

lemma join_tasks_results:
  assumes "join_fault w = None"
  shows "\<exists>r1 r2 r3 r4.
     gather_industry_trends w = Inr r1 \<and> gather_competitor_data w = Inr r2 \<and>
     gather_market_demands w = Inr r3 \<and> gather_social_media_trends w = Inr r4 \<and>
     join_tasks w = Inr [r1, r2, r3, r4] \<and>
     dict_get r1 (PStr ''source'') = PStr ''industry_trends'' \<and>
     dict_get r2 (PStr ''source'') = PStr ''competitor_data'' \<and>
     dict_get r3 (PStr ''source'') = PStr ''market_demands'' \<and>
     dict_get r4 (PStr ''source'') = PStr ''social_media''"
proof -
  obtain r1 where r1: "gather_industry_trends w = Inr r1"
      "dict_get r1 (PStr ''source'') = PStr ''industry_trends''"
    using industry_trends_result source_result_for_source by blast
  obtain r2 where r2: "gather_competitor_data w = Inr r2"
      "dict_get r2 (PStr ''source'') = PStr ''competitor_data''"
    using competitor_data_result source_result_for_source by blast
  obtain r3 where r3: "gather_market_demands w = Inr r3"
      "dict_get r3 (PStr ''source'') = PStr ''market_demands''"
    using market_demands_result source_result_for_source by blast
  obtain r4 where r4: "gather_social_media_trends w = Inr r4"
      "dict_get r4 (PStr ''source'') = PStr ''social_media''"
    using social_media_source by blast
  have "join_tasks w = Inr [r1, r2, r3, r4]"
    using assms r1 r2 r3 r4 by (simp add: join_tasks_def bind_exn_simps)
  with r1 r2 r3 r4 show ?thesis by blast
qed

lemma gather_data_acquired:
  "session_new w = None \<Longrightarrow>
   gather_data w s =
     (Some SessionClosed, bind_exn (join_tasks w) (combine_data (now_at w ''combine'')))"
  by (simp add: gather_data_def try_finally_def close_session_def)

lemma gather_data_not_acquired:
  "session_new w = Some e \<Longrightarrow> gather_data w s = (s, Inl e)"
  by (simp add: gather_data_def)

lemma join_tasks_fault: "join_fault w = Some e \<Longrightarrow> join_tasks w = Inl e"
  by (simp add: join_tasks_def)

lemma gather_data_returns:
  assumes "gather_data w s = (s', Inr bundle)"
  shows "session_new w = None \<and> join_fault w = None"
proof -
  have a: "session_new w = None"
    using assms by (cases "session_new w") (simp_all add: gather_data_not_acquired)
  have "join_fault w = None"
  proof (cases "join_fault w")
    case None then show ?thesis .
  next
    case (Some e)
    then show ?thesis
      using assms a by (simp add: gather_data_acquired join_tasks_fault bind_exn_simps)
  qed
  with a show ?thesis by simp
qed

text \<open>
  C2. When the session is created and the join is not hit by a fault, \<open>gather_data\<close>
  returns a bundle, whatever each GET did. Every bundle it returns is the combination of
  the four settled fetch results, and the keys of its \<open>sources\<close> mapping are exactly
  the four configured sources.
\<close>

theorem bundle_complete:
  "(session_new w = None \<and> join_fault w = None \<longrightarrow>
      (\<exists>bundle. gather_data w s = (Some SessionClosed, Inr bundle))) \<and>
   (\<forall>s' bundle. gather_data w s = (s', Inr bundle) \<longrightarrow>
      (\<exists>r1 r2 r3 r4 sources.
         gather_industry_trends w = Inr r1 \<and> gather_competitor_data w = Inr r2 \<and>
         gather_market_demands w = Inr r3 \<and> gather_social_media_trends w = Inr r4 \<and>
         combine_data (now_at w ''combine'') [r1, r2, r3, r4] = Inr bundle \<and>
         dict_lookup bundle (PStr ''sources'') = Some (PDict sources) \<and>
         dict_keys sources = source_ids))"
proof -
  have main: "\<exists>r1 r2 r3 r4 sources.
         gather_data w s = (Some SessionClosed, combine_data (now_at w ''combine'') [r1, r2, r3, r4]) \<and>
         gather_industry_trends w = Inr r1 \<and> gather_competitor_data w = Inr r2 \<and>
         gather_market_demands w = Inr r3 \<and> gather_social_media_trends w = Inr r4 \<and>
         combine_data (now_at w ''combine'') [r1, r2, r3, r4] =
           Inr [(PStr ''timestamp'', PStr (now_at w ''combine'')), (PStr ''sources'', PDict sources)] \<and>
         dict_keys sources = source_ids"
    if ok: "session_new w = None" "join_fault w = None"
  proof -
    from join_tasks_results [OF ok(2)] obtain r1 r2 r3 r4 where
      r: "gather_industry_trends w = Inr r1" "gather_competitor_data w = Inr r2"
        "gather_market_demands w = Inr r3" "gather_social_media_trends w = Inr r4"
        "join_tasks w = Inr [r1, r2, r3, r4]"
      and src: "dict_get r1 (PStr ''source'') = PStr ''industry_trends''"
        "dict_get r2 (PStr ''source'') = PStr ''competitor_data''"
        "dict_get r3 (PStr ''source'') = PStr ''market_demands''"
        "dict_get r4 (PStr ''source'') = PStr ''social_media''"
      by blast
    have g: "gather_data w s =
        (Some SessionClosed, combine_data (now_at w ''combine'') [r1, r2, r3, r4])"
      using ok(1) r(5) by (simp add: gather_data_acquired bind_exn_simps)
    note c = combine_four [OF src, of "now_at w ''combine''"]
    show ?thesis
      using g r(1-4) c by (auto simp add: dict_keys_def source_ids_def)
  qed
  have first: "\<exists>bundle. gather_data w s = (Some SessionClosed, Inr bundle)"
    if "session_new w = None \<and> join_fault w = None"
    using main that by metis
  have second: "\<exists>r1 r2 r3 r4 sources.
         gather_industry_trends w = Inr r1 \<and> gather_competitor_data w = Inr r2 \<and>
         gather_market_demands w = Inr r3 \<and> gather_social_media_trends w = Inr r4 \<and>
         combine_data (now_at w ''combine'') [r1, r2, r3, r4] = Inr b \<and>
         dict_lookup b (PStr ''sources'') = Some (PDict sources) \<and>
         dict_keys sources = source_ids"
    if h: "gather_data w s = (s', Inr b)" for s' b
  proof -
    from gather_data_returns [OF h] have ok: "session_new w = None" "join_fault w = None"
      by simp_all
    from main [OF ok] obtain r1 r2 r3 r4 sources where
      m: "gather_data w s = (Some SessionClosed, combine_data (now_at w ''combine'') [r1, r2, r3, r4])"
        "gather_industry_trends w = Inr r1" "gather_competitor_data w = Inr r2"
        "gather_market_demands w = Inr r3" "gather_social_media_trends w = Inr r4"
        "combine_data (now_at w ''combine'') [r1, r2, r3, r4] =
           Inr [(PStr ''timestamp'', PStr (now_at w ''combine'')), (PStr ''sources'', PDict sources)]"
        "dict_keys sources = source_ids"
      by blast
    from h m(1) m(6) have b: "b =
        [(PStr ''timestamp'', PStr (now_at w ''combine'')), (PStr ''sources'', PDict sources)]"
      by simp
    have "dict_lookup b (PStr ''sources'') = Some (PDict sources)"
      by (simp add: b py_eq_PStr_left)
    with m b show ?thesis by blast
  qed
  from first second show ?thesis by blast
qed

theorem bundle_complete_witness:
  "\<exists>bundle sources.
     gather_data scenario_world None = (Some SessionClosed, Inr bundle) \<and>
     dict_lookup bundle (PStr ''sources'') = Some (PDict sources) \<and>
     dict_keys sources =
       [PStr ''industry_trends'', PStr ''competitor_data'', PStr ''market_demands'',
        PStr ''social_media'']"
proof -
  have ok: "session_new scenario_world = None \<and> join_fault scenario_world = None"
    by (simp add: scenario_world_def)
  from bundle_complete [of scenario_world None] ok
  obtain bd where b: "gather_data scenario_world None = (Some SessionClosed, Inr bd)"
    by blast
  with bundle_complete [of scenario_world None] show ?thesis
    unfolding source_ids_def by blast
qed

text \<open>
  C7. Once the session has been created, it is closed when \<open>gather_data\<close> is left, for
  every outcome of the fetches and also when a fault of the join is propagated. When
  creating the session raises, nothing was acquired and the state is unchanged.
\<close>

theorem session_released:
  "(session_new w = None \<longrightarrow>
      fst (gather_data w s) = Some SessionClosed \<and>
      (\<forall>e. join_fault w = Some e \<longrightarrow> snd (gather_data w s) = Inl e)) \<and>
   (\<forall>e. session_new w = Some e \<longrightarrow> gather_data w s = (s, Inl e))"
  by (simp add: gather_data_acquired gather_data_not_acquired join_tasks_fault bind_exn_simps)

theorem session_released_witness:
  "fst (gather_data faulty_join_world None) = Some SessionClosed \<and>
   snd (gather_data faulty_join_world None) = Inl (Exn ''join interrupted'') \<and>
   fst (gather_data scenario_world None) = Some SessionClosed"
  using session_released [of faulty_join_world None] session_released [of scenario_world None]
  by (simp add: faulty_join_world_def scenario_world_def)

section \<open>Combining\<close>

lemma entries_for_dict_set_other:
  "k \<noteq> PStr sid \<Longrightarrow> entries_for sid (dict_set d k v) = entries_for sid d"
proof (induction d)
  case Nil
  then show ?case by (simp add: entries_for_def)
next
  case (Cons kv d)
  obtain k' v' where kv: "kv = (k', v')" by (cases kv)
  show ?case
  proof (cases "py_eq k' k")
    case True
    with Cons.prems have "k' \<noteq> PStr sid"
      by (auto simp: py_eq_PStr_left)
    with True show ?thesis by (simp add: kv entries_for_def)
  next
    case False
    with Cons show ?thesis by (simp add: kv entries_for_def)
  qed
qed

lemma entries_for_dict_set_same:
  "length (entries_for sid d) \<le> 1 \<Longrightarrow> entries_for sid (dict_set d (PStr sid) v) = [v]"
proof (induction d)
  case Nil
  then show ?case by (simp add: entries_for_def)
next
  case (Cons kv d)
  obtain k' v' where kv: "kv = (k', v')" by (cases kv)
  show ?case
  proof (cases "k' = PStr sid")
    case True
    with Cons.prems have "entries_for sid d = []"
      by (simp add: kv entries_for_def)
    with True show ?thesis
      by (simp add: kv entries_for_def py_eq_PStr_left)
  next
    case False
    with Cons show ?thesis
      by (simp add: kv entries_for_def py_eq_PStr_right)
  qed
qed

lemma combine_loop_entries:
  "combine_loop acc results = Inr sources \<Longrightarrow> length (entries_for sid acc) \<le> 1 \<Longrightarrow>
   sid \<noteq> [] \<Longrightarrow>
   entries_for sid sources =
     (if filter (claims_source sid) results = [] then entries_for sid acc
      else [source_entry (last (filter (claims_source sid) results))])"
proof (induction results arbitrary: acc)
  case Nil
  then show ?case by simp
next
  case (Cons r rs)
  let ?src = "dict_get r (PStr ''source'')"
  show ?case
  proof (cases "truthy ?src")
    case False
    with Cons.prems(3) have nc: "\<not> claims_source sid r"
      by (auto simp: claims_source_def)
    from False Cons.prems(1) have "combine_loop acc rs = Inr sources"
      by simp
    from Cons.IH [OF this Cons.prems(2,3)] nc show ?thesis by simp
  next
    case True
    note tr = True
    show ?thesis
    proof (cases "hashable ?src")
      case False
      with tr Cons.prems(1) show ?thesis by simp
    next
      case True
      with tr Cons.prems(1)
      have step: "combine_loop (dict_set acc ?src (source_entry r)) rs = Inr sources"
        by simp
      show ?thesis
      proof (cases "claims_source sid r")
        case True
        then have src: "?src = PStr sid" by (simp add: claims_source_def)
        have e: "entries_for sid (dict_set acc ?src (source_entry r)) = [source_entry r]"
          using entries_for_dict_set_same [OF Cons.prems(2)] src by simp
        then have "length (entries_for sid (dict_set acc ?src (source_entry r))) \<le> 1"
          by simp
        from Cons.IH [OF step this Cons.prems(3)] e True show ?thesis by simp
      next
        case False
        then have src: "?src \<noteq> PStr sid" by (simp add: claims_source_def)
        have e: "entries_for sid (dict_set acc ?src (source_entry r)) = entries_for sid acc"
          using entries_for_dict_set_other [OF src] .
        with Cons.prems(2)
        have "length (entries_for sid (dict_set acc ?src (source_entry r))) \<le> 1"
          by simp
        from Cons.IH [OF step this Cons.prems(3)] e False show ?thesis by simp
      qed
    qed
  qed
qed

lemma combine_data_sources:
  "combine_data now results = Inr b \<Longrightarrow>
   \<exists>sources. combine_loop [] results = Inr sources \<and>
     b = [(PStr ''timestamp'', PStr now), (PStr ''sources'', PDict sources)] \<and>
     dict_lookup b (PStr ''sources'') = Some (PDict sources)"
  by (cases "combine_loop [] results")
     (auto simp: combine_data_def bind_exn_simps py_eq_PStr_left)

text \<open>
  C5. When two results of the joined list claim the same source identifier and no later
  result claims it, the \<open>sources\<close> mapping of the bundle holds exactly one entry under
  that identifier, and it is the entry built from the later of the two results.
\<close>

theorem last_write_wins:
  assumes "combine_data now results = Inr b"
    and "results = before @ r1 # between @ r2 # after"
    and "claims_source sid r1" and "claims_source sid r2" and "sid \<noteq> []"
    and "\<forall>r \<in> set after. \<not> claims_source sid r"
  shows "\<exists>sources. dict_lookup b (PStr ''sources'') = Some (PDict sources) \<and>
           entries_for sid sources = [source_entry r2]"
proof -
  from combine_data_sources [OF assms(1)] obtain sources where
    s: "combine_loop [] results = Inr sources"
      "dict_lookup b (PStr ''sources'') = Some (PDict sources)"
    by blast
  have f: "filter (claims_source sid) after = []"
    using assms(6) by (simp add: filter_empty_conv)
  have l: "filter (claims_source sid) results \<noteq> [] \<and>
           last (filter (claims_source sid) results) = r2"
    using assms(2,3,4) f by simp
  have "entries_for sid sources = [source_entry r2]"
    using combine_loop_entries [OF s(1) _ assms(5)] l by (simp add: entries_for_def)
  with s(2) show ?thesis by blast
qed

lemma combine_dup_results:
  "combine_data ''t'' dup_results =
     Inr [(PStr ''timestamp'', PStr ''t''),
          (PStr ''sources'',
           PDict [(PStr ''industry_trends'',
                   PDict [(PStr ''data'', PDict []), (PStr ''error'', PStr ''timeout''),
                          (PStr ''timestamp'', PStr ''t3'')]),
                  (PStr ''social_media'',
                   PDict [(PStr ''data'', PInt 2), (PStr ''error'', PNone),
                          (PStr ''timestamp'', PStr ''t2'')])])]"
  by (simp add: dup_results_def combine_data_def bind_exn_simps py_eq_PStr_left
      dict_get_def dict_get_default_def source_entry_def)

theorem last_write_wins_witness:
  "\<exists>sources.
     dict_lookup
       [(PStr ''timestamp'', PStr ''t''),
          (PStr ''sources'',
           PDict [(PStr ''industry_trends'',
                   PDict [(PStr ''data'', PDict []), (PStr ''error'', PStr ''timeout''),
                          (PStr ''timestamp'', PStr ''t3'')]),
                  (PStr ''social_media'',
                   PDict [(PStr ''data'', PInt 2), (PStr ''error'', PNone),
                          (PStr ''timestamp'', PStr ''t2'')])])]
       (PStr ''sources'') = Some (PDict sources) \<and>
     entries_for ''industry_trends'' sources =
       [source_entry [(PStr ''source'', PStr ''industry_trends''),
          (PStr ''error'', PStr ''timeout''), (PStr ''timestamp'', PStr ''t3'')]]"
proof -
  let ?r1 = "[(PStr ''source'', PStr ''industry_trends''), (PStr ''data'', PInt 1),
       (PStr ''timestamp'', PStr ''t1'')]"
  let ?rm = "[(PStr ''source'', PStr ''social_media''), (PStr ''data'', PInt 2),
       (PStr ''timestamp'', PStr ''t2'')]"
  let ?r2 = "[(PStr ''source'', PStr ''industry_trends''), (PStr ''error'', PStr ''timeout''),
       (PStr ''timestamp'', PStr ''t3'')]"
  let ?r4 = "[(PStr ''data'', PInt 4), (PStr ''timestamp'', PStr ''t4'')]"
  have 1: "dup_results = [] @ ?r1 # [?rm] @ ?r2 # [?r4]"
    by (simp add: dup_results_def)
  have 2: "claims_source ''industry_trends'' ?r1" "claims_source ''industry_trends'' ?r2"
    by (simp_all add: claims_source_def dict_get_def py_eq_PStr_left)
  have 3: "''industry_trends'' \<noteq> []" by simp
  have 4: "\<forall>r \<in> set [?r4]. \<not> claims_source ''industry_trends'' r"
    by (simp add: claims_source_def dict_get_def py_eq_PStr_left)
  from last_write_wins [OF combine_dup_results 1 2 3 4] show ?thesis .
qed

lemma py_eq_refl: "py_eq k k"
  by (cases k) (simp_all add: py_eq_def)

lemma dict_set_elems:
  "kv \<in> set (dict_set d k v) \<Longrightarrow> kv \<in> set d \<or> (snd kv = v \<and> py_eq (fst kv) k)"
proof (induction d)
  case Nil
  then show ?case by (auto simp: py_eq_refl)
next
  case (Cons x d)
  obtain k' v' where x: "x = (k', v')" by (cases x)
  from Cons show ?case
    by (cases "py_eq k' k") (auto simp: x)
qed

lemma source_entry_origin:
  "r \<in> set results \<Longrightarrow> truthy (dict_get r (PStr ''source'')) \<Longrightarrow>
   py_eq k (dict_get r (PStr ''source'')) \<Longrightarrow> entry_origin results (k, source_entry r)"
  unfolding entry_origin_def source_entry_def dict_get_def dict_get_default_def
  by (rule bexI [of _ r]) simp_all

lemma combine_loop_origin:
  "combine_loop acc rs = Inr sources \<Longrightarrow> set rs \<subseteq> set results \<Longrightarrow>
   \<forall>kv \<in> set acc. entry_origin results kv \<Longrightarrow>
   \<forall>kv \<in> set sources. entry_origin results kv"
proof (induction rs arbitrary: acc)
  case Nil
  then show ?case by simp
next
  case (Cons r rs)
  let ?src = "dict_get r (PStr ''source'')"
  show ?case
  proof (cases "truthy ?src")
    case False
    with Cons.prems(1) have "combine_loop acc rs = Inr sources" by simp
    from Cons.IH [OF this _ Cons.prems(3)] Cons.prems(2) show ?thesis by simp
  next
    case True
    note tr = True
    show ?thesis
    proof (cases "hashable ?src")
      case False
      with tr Cons.prems(1) show ?thesis by simp
    next
      case True
      with tr Cons.prems(1)
      have step: "combine_loop (dict_set acc ?src (source_entry r)) rs = Inr sources"
        by simp
      have "\<forall>kv \<in> set (dict_set acc ?src (source_entry r)). entry_origin results kv"
      proof
        fix kv assume "kv \<in> set (dict_set acc ?src (source_entry r))"
        from dict_set_elems [OF this]
        show "entry_origin results kv"
        proof
          assume "kv \<in> set acc"
          with Cons.prems(3) show ?thesis by simp
        next
          assume a: "snd kv = source_entry r \<and> py_eq (fst kv) ?src"
          have "r \<in> set results" using Cons.prems(2) by simp
          from source_entry_origin [OF this tr, of "fst kv"] a
          show ?thesis by (cases kv) simp
        qed
      qed
      from Cons.IH [OF step _ this] Cons.prems(2) show ?thesis by simp
    qed
  qed
qed

lemma combine_loop_skip:
  "\<not> truthy (dict_get r (PStr ''source'')) \<Longrightarrow>
   combine_loop acc (before @ r # after) = combine_loop acc (before @ after)"
  by (induction before arbitrary: acc) (simp_all add: Let_def)

lemma dict_lookup_entries_for:
  "dict_lookup d (PStr sid) = (case entries_for sid d of [] \<Rightarrow> None | v # vs \<Rightarrow> Some v)"
proof (induction d)
  case Nil
  then show ?case by (simp add: entries_for_def)
next
  case (Cons kv d)
  obtain k' v' where kv: "kv = (k', v')" by (cases kv)
  from Cons show ?case
    by (cases "k' = PStr sid") (simp_all add: kv entries_for_def py_eq_PStr_right)
qed

lemma source_entry_explicit:
  "source_entry r =
     PDict [(PStr ''data'',
             (case dict_lookup r (PStr ''data'') of None \<Rightarrow> PDict [] | Some d \<Rightarrow> d)),
            (PStr ''error'',
             (case dict_lookup r (PStr ''error'') of None \<Rightarrow> PNone | Some e \<Rightarrow> e)),
            (PStr ''timestamp'', dict_get r (PStr ''timestamp''))]"
  by (simp add: source_entry_def dict_get_def dict_get_default_def)

lemma combine_loop_returns:
  "\<forall>r \<in> set results.
      hashable (dict_get r (PStr ''source'')) \<or> \<not> truthy (dict_get r (PStr ''source'')) \<Longrightarrow>
   \<exists>sources. combine_loop acc results = Inr sources"
  by (induction results arbitrary: acc) (auto simp add: Let_def)

text \<open>
  C10. When \<open>_combine_data\<close> returns, the last result that claims a source identifier
  has its entry in the \<open>sources\<close> mapping, and every entry of the mapping is such an
  entry: it has exactly the keys \<open>data\<close>, \<open>error\<close> and \<open>timestamp\<close>, taken from a
  result with a truthy source tag, with \<open>data\<close> defaulting to the empty mapping and
  \<open>error\<close> to \<open>None\<close> (so the entry of a failed source holds \<open>data = {}\<close> together
  with its error). A result without a truthy source tag leaves no trace in the bundle,
  and \<open>_combine_data\<close> returns whenever every truthy source tag is hashable.
\<close>

theorem combined_entries:
  "(\<forall>b. combine_data now results = Inr b \<longrightarrow>
      (\<exists>sources. dict_lookup b (PStr ''sources'') = Some (PDict sources) \<and>
         (\<forall>kv \<in> set sources. entry_origin results kv))) \<and>
   (\<forall>r before after. \<not> truthy (dict_get r (PStr ''source'')) \<longrightarrow>
      combine_data now (before @ r # after) = combine_data now (before @ after)) \<and>
   (\<forall>b sid r.
      combine_data now results = Inr b \<and> sid \<noteq> [] \<and>
      filter (claims_source sid) results \<noteq> [] \<and>
      r = last (filter (claims_source sid) results) \<longrightarrow>
      (\<exists>sources. dict_lookup b (PStr ''sources'') = Some (PDict sources) \<and>
         dict_lookup sources (PStr sid) =
           Some (PDict
             [(PStr ''data'',
               (case dict_lookup r (PStr ''data'') of None \<Rightarrow> PDict [] | Some d \<Rightarrow> d)),
              (PStr ''error'',
               (case dict_lookup r (PStr ''error'') of None \<Rightarrow> PNone | Some e \<Rightarrow> e)),
              (PStr ''timestamp'', dict_get r (PStr ''timestamp''))]))) \<and>
   ((\<forall>r \<in> set results.
       hashable (dict_get r (PStr ''source'')) \<or> \<not> truthy (dict_get r (PStr ''source''))) \<longrightarrow>
    (\<exists>b. combine_data now results = Inr b))"
proof -
  have 1: "\<exists>sources. dict_lookup b (PStr ''sources'') = Some (PDict sources) \<and>
         (\<forall>kv \<in> set sources. entry_origin results kv)"
    if h: "combine_data now results = Inr b" for b
  proof -
    from combine_data_sources [OF h] obtain sources where
      s: "combine_loop [] results = Inr sources"
        "dict_lookup b (PStr ''sources'') = Some (PDict sources)"
      by blast
    from combine_loop_origin [OF s(1), of results] have
      "\<forall>kv \<in> set sources. entry_origin results kv" by simp
    with s(2) show ?thesis by blast
  qed
  have 2: "combine_data now (before @ r # after) = combine_data now (before @ after)"
    if "\<not> truthy (dict_get r (PStr ''source''))" for r before after
    using combine_loop_skip [OF that] by (simp add: combine_data_def)
  have 3: "\<exists>sources. dict_lookup b (PStr ''sources'') = Some (PDict sources) \<and>
         dict_lookup sources (PStr sid) =
           Some (PDict
             [(PStr ''data'',
               (case dict_lookup r (PStr ''data'') of None \<Rightarrow> PDict [] | Some d \<Rightarrow> d)),
              (PStr ''error'',
               (case dict_lookup r (PStr ''error'') of None \<Rightarrow> PNone | Some e \<Rightarrow> e)),
              (PStr ''timestamp'', dict_get r (PStr ''timestamp''))])"
    if h: "combine_data now results = Inr b \<and> sid \<noteq> [] \<and>
      filter (claims_source sid) results \<noteq> [] \<and>
      r = last (filter (claims_source sid) results)" for b sid r
  proof -
    from h have hb: "combine_data now results = Inr b" and hs: "sid \<noteq> []"
      and hf: "filter (claims_source sid) results \<noteq> []"
      and hr: "r = last (filter (claims_source sid) results)"
      by simp_all
    from combine_data_sources [OF hb] obtain sources where
      s: "combine_loop [] results = Inr sources"
        "dict_lookup b (PStr ''sources'') = Some (PDict sources)"
      by blast
    have "entries_for sid sources = [source_entry r]"
      using combine_loop_entries [OF s(1) _ hs] hf hr by (simp add: entries_for_def)
    then have "dict_lookup sources (PStr sid) = Some (source_entry r)"
      by (simp add: dict_lookup_entries_for)
    with s(2) show ?thesis
      unfolding source_entry_explicit by blast
  qed
  have 4: "\<exists>b. combine_data now results = Inr b"
    if h: "\<forall>r \<in> set results.
       hashable (dict_get r (PStr ''source'')) \<or> \<not> truthy (dict_get r (PStr ''source''))"
  proof -
    from combine_loop_returns [OF h, of "[]"] obtain sources where
      "combine_loop [] results = Inr sources" by blast
    then show ?thesis by (simp add: combine_data_def bind_exn_simps)
  qed
  from 1 2 3 4 show ?thesis by blast
qed

theorem combined_entries_witness:
  "\<exists>b sources.
     combine_data ''t'' dup_results = Inr b \<and>
     dict_lookup b (PStr ''sources'') = Some (PDict sources) \<and>
     dict_lookup sources (PStr ''industry_trends'') =
       Some (PDict [(PStr ''data'', PDict []), (PStr ''error'', PStr ''timeout''),
                    (PStr ''timestamp'', PStr ''t3'')]) \<and>
     dict_lookup sources (PStr ''social_media'') =
       Some (PDict [(PStr ''data'', PInt 2), (PStr ''error'', PNone),
                    (PStr ''timestamp'', PStr ''t2'')]) \<and>
     list_all (entry_origin dup_results) sources \<and>
     combine_data ''t''
       ([] @ [(PStr ''data'', PInt 4), (PStr ''timestamp'', PStr ''t4'')] # dup_results) =
     combine_data ''t'' ([] @ dup_results)"
proof -
  note c = combined_entries [of "''t''" dup_results]
  have hyp: "\<forall>r \<in> set dup_results.
       hashable (dict_get r (PStr ''source'')) \<or> \<not> truthy (dict_get r (PStr ''source''))"
    by (simp add: dup_results_def dict_get_def py_eq_PStr_left)
  with c obtain b where b: "combine_data ''t'' dup_results = Inr b" by blast
  let ?r2 = "[(PStr ''source'', PStr ''industry_trends''), (PStr ''error'', PStr ''timeout''),
       (PStr ''timestamp'', PStr ''t3'')]"
  let ?rm = "[(PStr ''source'', PStr ''social_media''), (PStr ''data'', PInt 2),
       (PStr ''timestamp'', PStr ''t2'')]"
  have f1: "filter (claims_source ''industry_trends'') dup_results \<noteq> [] \<and>
      ?r2 = last (filter (claims_source ''industry_trends'') dup_results)"
    by (simp add: dup_results_def claims_source_def dict_get_def py_eq_PStr_left)
  have f2: "filter (claims_source ''social_media'') dup_results \<noteq> [] \<and>
      ?rm = last (filter (claims_source ''social_media'') dup_results)"
    by (simp add: dup_results_def claims_source_def dict_get_def py_eq_PStr_left)
  from c b obtain sources where
    s: "dict_lookup b (PStr ''sources'') = Some (PDict sources)"
      "\<forall>kv \<in> set sources. entry_origin dup_results kv"
    by blast
  from c b f1 have "\<exists>sources. dict_lookup b (PStr ''sources'') = Some (PDict sources) \<and>
         dict_lookup sources (PStr ''industry_trends'') =
           Some (PDict
             [(PStr ''data'',
               (case dict_lookup ?r2 (PStr ''data'') of None \<Rightarrow> PDict [] | Some d \<Rightarrow> d)),
              (PStr ''error'',
               (case dict_lookup ?r2 (PStr ''error'') of None \<Rightarrow> PNone | Some e \<Rightarrow> e)),
              (PStr ''timestamp'', dict_get ?r2 (PStr ''timestamp''))])"
    by blast
  with s(1) have e1: "dict_lookup sources (PStr ''industry_trends'') =
       Some (PDict [(PStr ''data'', PDict []), (PStr ''error'', PStr ''timeout''),
                    (PStr ''timestamp'', PStr ''t3'')])"
    by (auto simp add: dict_get_def py_eq_PStr_left)
  from c b f2 have "\<exists>sources. dict_lookup b (PStr ''sources'') = Some (PDict sources) \<and>
         dict_lookup sources (PStr ''social_media'') =
           Some (PDict
             [(PStr ''data'',
               (case dict_lookup ?rm (PStr ''data'') of None \<Rightarrow> PDict [] | Some d \<Rightarrow> d)),
              (PStr ''error'',
               (case dict_lookup ?rm (PStr ''error'') of None \<Rightarrow> PNone | Some e \<Rightarrow> e)),
              (PStr ''timestamp'', dict_get ?rm (PStr ''timestamp''))])"
    by blast
  with s(1) have e2: "dict_lookup sources (PStr ''social_media'') =
       Some (PDict [(PStr ''data'', PInt 2), (PStr ''error'', PNone),
                    (PStr ''timestamp'', PStr ''t2'')])"
    by (auto simp add: dict_get_def py_eq_PStr_left)
  have o: "list_all (entry_origin dup_results) sources"
    using s(2) by (simp add: list_all_iff)
  have "\<not> truthy (dict_get [(PStr ''data'', PInt 4), (PStr ''timestamp'', PStr ''t4'')]
          (PStr ''source''))"
    by (simp add: dict_get_def py_eq_PStr_left)
  with c have k: "combine_data ''t''
     ([] @ [(PStr ''data'', PInt 4), (PStr ''timestamp'', PStr ''t4'')] # dup_results) =
     combine_data ''t'' ([] @ dup_results)"
    by blast
  from b s(1) e1 e2 o k show ?thesis by blast
qed

section \<open>The research cycle\<close>

lemma success_result_shaped: "cycle_result_shaped (success_result a t o' i)"
  by (simp add: cycle_result_shaped_def success_result_def dict_keys_def py_eq_PStr_left)

lemma error_result_shaped: "cycle_result_shaped (error_result e)"
  by (simp add: cycle_result_shaped_def error_result_def dict_keys_def py_eq_PStr_left)

lemma run_stages_cases:
  "run_stages g a d i y ls =
     (case g of Inl e \<Rightarrow> (ls @ [''Error in market research: '' @ exn_str e], Inr (error_result e))
      | Inr md \<Rightarrow>
     (case a md of Inl e \<Rightarrow> (ls @ [''Error in market research: '' @ exn_str e], Inr (error_result e))
      | Inr ma \<Rightarrow>
     (case d md of Inl e \<Rightarrow> (ls @ [''Error in market research: '' @ exn_str e], Inr (error_result e))
      | Inr t \<Rightarrow>
     (case i t of Inl e \<Rightarrow> (ls @ [''Error in market research: '' @ exn_str e], Inr (error_result e))
      | Inr ops \<Rightarrow>
     (case y ma t of Inl e \<Rightarrow> (ls @ [''Error in market research: '' @ exn_str e], Inr (error_result e))
      | Inr ins \<Rightarrow> (ls, Inr (success_result ma (PList t) (PList ops) ins)))))))"
  by (simp add: run_stages_def bind_exn_def split: sum.splits)

lemma run_stages_shaped:
  "\<exists>r. snd (run_stages g a d i y ls) = Inr r \<and> cycle_result_shaped r"
  by (simp add: run_stages_cases success_result_shaped error_result_shaped split: sum.splits)

lemma run_snd:
  "snd (run w td st) =
     snd (run_stages (snd (agent_gather_market_data w (analyzer_session st)))
            (agent_analyze_market_data w) (agent_detect_trends td)
            (agent_identify_opportunities td) generate_insights (logger st))"
  by (simp add: run_def split: prod.splits)

text \<open>
  C1. Whatever the five stages do, also when one of them raises, \<open>run\<close> returns: its
  result is never a raise and always has one of the two shapes of a \<open>CycleResult\<close>.
  A stage that raises gives the error result with the text of its exception; when all
  five return, the result is the success result built from what they returned. This
  holds for the body of \<open>run\<close> over any five stages and for \<open>run\<close> itself.
\<close>

theorem run_never_raises:
  "(\<exists>r. snd (run_stages g a d i y ls) = Inr r \<and> cycle_result_shaped r) \<and>
   (\<exists>r. snd (run w td st) = Inr r \<and> cycle_result_shaped r) \<and>
   (\<forall>e. g = Inl e \<longrightarrow> snd (run_stages g a d i y ls) = Inr (error_result e)) \<and>
   (\<forall>md e. g = Inr md \<and> a md = Inl e \<longrightarrow>
      snd (run_stages g a d i y ls) = Inr (error_result e)) \<and>
   (\<forall>md ma e. g = Inr md \<and> a md = Inr ma \<and> d md = Inl e \<longrightarrow>
      snd (run_stages g a d i y ls) = Inr (error_result e)) \<and>
   (\<forall>md ma t e. g = Inr md \<and> a md = Inr ma \<and> d md = Inr t \<and> i t = Inl e \<longrightarrow>
      snd (run_stages g a d i y ls) = Inr (error_result e)) \<and>
   (\<forall>md ma t ops e.
      g = Inr md \<and> a md = Inr ma \<and> d md = Inr t \<and> i t = Inr ops \<and> y ma t = Inl e \<longrightarrow>
      snd (run_stages g a d i y ls) = Inr (error_result e)) \<and>
   (\<forall>md ma t ops ins.
      g = Inr md \<and> a md = Inr ma \<and> d md = Inr t \<and> i t = Inr ops \<and> y ma t = Inr ins \<longrightarrow>
      snd (run_stages g a d i y ls) = Inr (success_result ma (PList t) (PList ops) ins))"
proof -
  have 1: "\<exists>r. snd (run_stages g a d i y ls) = Inr r \<and> cycle_result_shaped r"
    by (rule run_stages_shaped)
  have 2: "\<exists>r. snd (run w td st) = Inr r \<and> cycle_result_shaped r"
    unfolding run_snd by (rule run_stages_shaped)
  have 3: "\<forall>e. g = Inl e \<longrightarrow> snd (run_stages g a d i y ls) = Inr (error_result e)"
    by (simp add: run_stages_cases)
  have 4: "\<forall>md e. g = Inr md \<and> a md = Inl e \<longrightarrow>
      snd (run_stages g a d i y ls) = Inr (error_result e)"
    by (simp add: run_stages_cases)
  have 5: "\<forall>md ma e. g = Inr md \<and> a md = Inr ma \<and> d md = Inl e \<longrightarrow>
      snd (run_stages g a d i y ls) = Inr (error_result e)"
    by (simp add: run_stages_cases)
  have 6: "\<forall>md ma t e. g = Inr md \<and> a md = Inr ma \<and> d md = Inr t \<and> i t = Inl e \<longrightarrow>
      snd (run_stages g a d i y ls) = Inr (error_result e)"
    by (simp add: run_stages_cases)
  have 7: "\<forall>md ma t ops e.
      g = Inr md \<and> a md = Inr ma \<and> d md = Inr t \<and> i t = Inr ops \<and> y ma t = Inl e \<longrightarrow>
      snd (run_stages g a d i y ls) = Inr (error_result e)"
    by (simp add: run_stages_cases)
  have 8: "\<forall>md ma t ops ins.
      g = Inr md \<and> a md = Inr ma \<and> d md = Inr t \<and> i t = Inr ops \<and> y ma t = Inr ins \<longrightarrow>
      snd (run_stages g a d i y ls) = Inr (success_result ma (PList t) (PList ops) ins)"
    by (simp add: run_stages_cases)
  from 1 2 3 4 5 6 7 8 show ?thesis by blast
qed

theorem run_never_raises_witness:
  "snd (run_stages (Inr PNone) (\<lambda>md. Inr PNone) (\<lambda>md. Inl (Exn ''detector failed''))
          (\<lambda>t. Inr []) (\<lambda>ma t. Inr PNone) []) =
     Inr [(PStr ''status'', PStr ''error''), (PStr ''error'', PStr ''detector failed'')] \<and>
   snd (run_stages (Inr PNone) (\<lambda>md. Inr (PInt 1)) (\<lambda>md. Inr [PInt 2])
          (\<lambda>t. Inr [PInt 3]) (\<lambda>ma t. Inr (PInt 4)) []) =
     Inr [(PStr ''status'', PStr ''success''), (PStr ''market_analysis'', PInt 1),
          (PStr ''trends'', PList [PInt 2]), (PStr ''opportunities'', PList [PInt 3]),
          (PStr ''insights'', PInt 4)] \<and>
   (\<exists>r. snd (run scenario_world failing_detector idle_agent) = Inr r \<and>
        cycle_result_shaped r)"
  using
    run_never_raises [of "Inr PNone" "\<lambda>md. Inr PNone" "\<lambda>md. Inl (Exn ''detector failed'')"
      "\<lambda>t. Inr []" "\<lambda>ma t. Inr PNone" "[]" scenario_world failing_detector idle_agent]
    run_never_raises [of "Inr PNone" "\<lambda>md. Inr (PInt 1)" "\<lambda>md. Inr [PInt 2]"
      "\<lambda>t. Inr [PInt 3]" "\<lambda>ma t. Inr (PInt 4)" "[]" scenario_world failing_detector idle_agent]
  by (simp add: error_result_def success_result_def)

text \<open>
  C9. \<open>identify_opportunities\<close> takes the trend sequence (and the derivation rule it is
  built from) and no state, and on the empty sequence it returns the empty sequence, not
  an exception, also when the rule would raise; the agent's method of the same name hands
  this result on unchanged.
\<close>

theorem identify_opportunities_empty:
  "identify_opportunities derive [] = Inr [] \<and>
   agent_identify_opportunities
     \<lparr> td_detect_trends = detect, td_identify_opportunities = identify_opportunities derive \<rparr>
     [] = Inr []"
  by (simp add: identify_opportunities_def agent_identify_opportunities_def)

section \<open>Analysis\<close>

lemma fault_of_simps: "fault_of (Inl e) = [e]" "fault_of (Inr v) = []"
  by (simp_all add: fault_of_def)

lemma analyze_facet_fault:
  "facet_faults F data \<noteq> [] \<Longrightarrow>
   analyze_body F now data = Inl (hd (facet_faults F data))"
  unfolding analyze_body_def facet_faults_def
  by (cases "f_analyze_trends F data"; cases "f_analyze_competitors F data";
      cases "f_identify_opportunities F data"; cases "f_assess_risks F data";
      cases "f_analyze_sentiment F data"; cases "f_assess_growth_potential F data")
     (simp_all add: bind_exn_simps fault_of_simps)

lemma analyze_no_facet_fault:
  "facet_faults F data = [] \<Longrightarrow>
   \<exists>mt ca oa rf ms gp.
     f_analyze_trends F data = Inr mt \<and> f_analyze_competitors F data = Inr ca \<and>
     f_identify_opportunities F data = Inr oa \<and> f_assess_risks F data = Inr rf \<and>
     f_analyze_sentiment F data = Inr ms \<and> f_assess_growth_potential F data = Inr gp"
  unfolding facet_faults_def
  by (cases "f_analyze_trends F data"; cases "f_analyze_competitors F data";
      cases "f_identify_opportunities F data"; cases "f_assess_risks F data";
      cases "f_analyze_sentiment F data"; cases "f_assess_growth_potential F data")
     (simp_all add: fault_of_simps)

lemma analyze_body_facets_ok:
  "f_analyze_trends F data = Inr mt \<Longrightarrow> f_analyze_competitors F data = Inr ca \<Longrightarrow>
   f_identify_opportunities F data = Inr oa \<Longrightarrow> f_assess_risks F data = Inr rf \<Longrightarrow>
   f_analyze_sentiment F data = Inr ms \<Longrightarrow> f_assess_growth_potential F data = Inr gp \<Longrightarrow>
   analyze_body F now data =
     bind_exn (f_generate_recommendations F (PDict (analysis_of mt ca oa rf ms gp))) (\<lambda>recs.
       Inr [(PStr ''timestamp'', PStr now),
            (PStr ''analysis'', PDict (analysis_of mt ca oa rf ms gp)),
            (PStr ''recommendations'', recs)])"
  by (simp add: analyze_body_def bind_exn_simps)

text \<open>
  C6. When a facet raises, \<open>analyze_data\<close> raises one exception whose message is
  \<open>Error analyzing market data: \<close> followed by the text of the first facet fault; when
  the facets return and the recommendation step raises, the same with its text. A report
  is returned only when nothing raised, and then it is complete.
\<close>

theorem analysis_fault_wrapped:
  "(facet_faults F data \<noteq> [] \<longrightarrow>
      analyze_data_with F now data =
        Inl (Exn (''Error analyzing market data: '' @ exn_str (hd (facet_faults F data))))) \<and>
   (\<forall>mt ca oa rf ms gp e.
      f_analyze_trends F data = Inr mt \<and> f_analyze_competitors F data = Inr ca \<and>
      f_identify_opportunities F data = Inr oa \<and> f_assess_risks F data = Inr rf \<and>
      f_analyze_sentiment F data = Inr ms \<and> f_assess_growth_potential F data = Inr gp \<and>
      f_generate_recommendations F (PDict (analysis_of mt ca oa rf ms gp)) = Inl e \<longrightarrow>
      analyze_data_with F now data =
        Inl (Exn (''Error analyzing market data: '' @ exn_str e))) \<and>
   (\<forall>r. analyze_data_with F now data = Inr r \<longrightarrow>
      facet_faults F data = [] \<and>
      (\<exists>mt ca oa rf ms gp recs.
         f_generate_recommendations F (PDict (analysis_of mt ca oa rf ms gp)) = Inr recs \<and>
         r = [(PStr ''timestamp'', PStr now),
              (PStr ''analysis'', PDict (analysis_of mt ca oa rf ms gp)),
              (PStr ''recommendations'', recs)]))"
proof -
  have 1: "facet_faults F data \<noteq> [] \<longrightarrow>
      analyze_data_with F now data =
        Inl (Exn (''Error analyzing market data: '' @ exn_str (hd (facet_faults F data))))"
    by (simp add: analyze_data_with_def analyze_facet_fault try_except_simps)
  have 2: "analyze_data_with F now data =
        Inl (Exn (''Error analyzing market data: '' @ exn_str e))"
    if "f_analyze_trends F data = Inr mt \<and> f_analyze_competitors F data = Inr ca \<and>
      f_identify_opportunities F data = Inr oa \<and> f_assess_risks F data = Inr rf \<and>
      f_analyze_sentiment F data = Inr ms \<and> f_assess_growth_potential F data = Inr gp \<and>
      f_generate_recommendations F (PDict (analysis_of mt ca oa rf ms gp)) = Inl e"
    for mt ca oa rf ms gp e
    using that
    by (simp add: analyze_data_with_def analyze_body_facets_ok bind_exn_simps try_except_simps)
  have 3: "facet_faults F data = [] \<and>
      (\<exists>mt ca oa rf ms gp recs.
         f_generate_recommendations F (PDict (analysis_of mt ca oa rf ms gp)) = Inr recs \<and>
         r = [(PStr ''timestamp'', PStr now),
              (PStr ''analysis'', PDict (analysis_of mt ca oa rf ms gp)),
              (PStr ''recommendations'', recs)])"
    if h: "analyze_data_with F now data = Inr r" for r
  proof -
    have nf: "facet_faults F data = []"
    proof (rule ccontr)
      assume "facet_faults F data \<noteq> []"
      with 1 h show False by simp
    qed
    from analyze_no_facet_fault [OF nf] obtain mt ca oa rf ms gp where
      f: "f_analyze_trends F data = Inr mt" "f_analyze_competitors F data = Inr ca"
        "f_identify_opportunities F data = Inr oa" "f_assess_risks F data = Inr rf"
        "f_analyze_sentiment F data = Inr ms" "f_assess_growth_potential F data = Inr gp"
      by blast
    note b = analyze_body_facets_ok [OF f, of now]
    show ?thesis
    proof (cases "f_generate_recommendations F (PDict (analysis_of mt ca oa rf ms gp))")
      case (Inl e)
      with h b show ?thesis
        by (simp add: analyze_data_with_def bind_exn_simps try_except_simps)
    next
      case (Inr recs)
      with h b have "r = [(PStr ''timestamp'', PStr now),
              (PStr ''analysis'', PDict (analysis_of mt ca oa rf ms gp)),
              (PStr ''recommendations'', recs)]"
        by (simp add: analyze_data_with_def bind_exn_simps try_except_simps)
      with Inr nf show ?thesis by blast
    qed
  qed
  from 1 2 3 show ?thesis by blast
qed

theorem analysis_fault_wrapped_witness:
  "analyze_data_with broken_sentiment ''t'' PNone =
     Inl (Exn ''Error analyzing market data: no lexicon'') \<and>
   analyze_data_with broken_recommendations ''t'' PNone =
     Inl (Exn ''Error analyzing market data: no rules'')"
proof -
  have a: "facet_faults broken_sentiment PNone = [Exn ''no lexicon'', Exn ''no history'']"
    by (simp add: facet_faults_def broken_sentiment_def analyzer_methods_def fault_of_simps
        analyze_trends_def analyze_competitors_def analyzer_identify_opportunities_def
        analyzer_assess_risks_def)
  have b: "analyze_data_with broken_sentiment ''t'' PNone =
     Inl (Exn ''Error analyzing market data: no lexicon'')"
    using analysis_fault_wrapped [of broken_sentiment PNone "''t''"] a by simp
  have c: "analyze_data_with broken_recommendations ''t'' PNone =
     Inl (Exn ''Error analyzing market data: no rules'')"
    using analysis_fault_wrapped [of broken_recommendations PNone "''t''"]
    by (simp add: broken_recommendations_def analyzer_methods_def
        analyze_trends_def analyze_competitors_def analyzer_identify_opportunities_def
        analyzer_assess_risks_def analyze_sentiment_def assess_growth_potential_def)
  from b c show ?thesis by simp
qed

section \<open>The cycle when every fetch fails\<close>

lemma analyze_data_stub: "agent_analyze_market_data w data = Inr (degraded_report (now_at w ''analyze''))"
  by (simp add: agent_analyze_market_data_def analyze_data_def analyze_data_with_def
      analyze_body_def analyzer_methods_def analyze_trends_def analyze_competitors_def
      analyzer_identify_opportunities_def analyzer_assess_risks_def analyze_sentiment_def
      assess_growth_potential_def analyzer_generate_recommendations_def analysis_of_def
      degraded_report_def empty_analysis_def bind_exn_simps try_except_simps)

lemma generate_insights_stub: "generate_insights analysis trends = Inr empty_insights"
  by (simp add: generate_insights_def empty_insights_def extract_key_findings_def
      agent_generate_recommendations_def agent_assess_risks_def)

lemma failed_source_entry:
  "source_result_for tag now outcome r \<Longrightarrow> fetch_failed outcome \<Longrightarrow>
   failed_entry (source_entry r)"
  by (cases outcome)
     (auto simp add: source_result_for_def fetch_failed_def failed_entry_def source_entry_def
        dict_get_def dict_get_default_def isl_def split: if_splits sum.splits)

lemma run_after_gather:
  "snd (gather_data w (analyzer_session st)) = Inr b \<Longrightarrow>
   snd (run w td st) =
     (case td_detect_trends td (PDict b) of
        Inl e \<Rightarrow> Inr (error_result e)
      | Inr t \<Rightarrow>
          (case td_identify_opportunities td t of
             Inl e \<Rightarrow> Inr (error_result e)
           | Inr ops \<Rightarrow>
               Inr (success_result (degraded_report (now_at w ''analyze'')) (PList t)
                      (PList ops) empty_insights)))"
  by (cases "gather_data w (analyzer_session st)")
     (simp add: run_snd agent_gather_market_data_def run_stages_cases bind_exn_simps
        analyze_data_stub generate_insights_stub agent_detect_trends_def
        agent_identify_opportunities_def split: sum.splits)

text \<open>
  C3. When the session is created, the join is not hit by a fault and all three network
  fetches fail, the gather still returns a bundle in which each of the three sources has
  an entry with an error and empty data; \<open>run\<close> returns the success result with the
  empty analysis whenever the trend detector's two methods return; and it returns status
  \<open>error\<close> only when one of them raises.
\<close>

theorem degraded_cycle_succeeds:
  assumes "session_new w = None" and "join_fault w = None" and "all_fetches_fail w"
  shows "\<exists>b sources.
     snd (gather_data w (analyzer_session st)) = Inr b \<and>
     dict_lookup b (PStr ''sources'') = Some (PDict sources) \<and>
     (\<forall>sid \<in> {''industry_trends'', ''competitor_data'', ''market_demands''}.
        \<exists>entry. dict_lookup sources (PStr sid) = Some entry \<and> failed_entry entry) \<and>
     (\<forall>t ops.
        td_detect_trends td (PDict b) = Inr t \<and> td_identify_opportunities td t = Inr ops \<longrightarrow>
        snd (run w td st) =
          Inr (success_result (degraded_report (now_at w ''analyze'')) (PList t) (PList ops)
                 empty_insights)) \<and>
     (\<forall>r. snd (run w td st) = Inr r \<and> dict_lookup r (PStr ''status'') = Some (PStr ''error'') \<longrightarrow>
        (\<exists>e. td_detect_trends td (PDict b) = Inl e) \<or>
        (\<exists>t e. td_detect_trends td (PDict b) = Inr t \<and>
               td_identify_opportunities td t = Inl e))"
proof -
  obtain r1 where r1: "gather_industry_trends w = Inr r1"
      "source_result_for ''industry_trends'' (now_at w ''industry_trends'')
         (http_get w ''https://api.example.com/trends'') r1"
    using industry_trends_result by blast
  obtain r2 where r2: "gather_competitor_data w = Inr r2"
      "source_result_for ''competitor_data'' (now_at w ''competitor_data'')
         (http_get w ''https://api.example.com/competitors'') r2"
    using competitor_data_result by blast
  obtain r3 where r3: "gather_market_demands w = Inr r3"
      "source_result_for ''market_demands'' (now_at w ''market_demands'')
         (http_get w ''https://api.example.com/market-data'') r3"
    using market_demands_result by blast
  obtain r4 where r4: "gather_social_media_trends w = Inr r4"
      "dict_get r4 (PStr ''source'') = PStr ''social_media''"
    using social_media_source by blast
  let ?sources = "[(PStr ''industry_trends'', source_entry r1),
                  (PStr ''competitor_data'', source_entry r2),
                  (PStr ''market_demands'', source_entry r3),
                  (PStr ''social_media'', source_entry r4)]"
  let ?b = "[(PStr ''timestamp'', PStr (now_at w ''combine'')), (PStr ''sources'', PDict ?sources)]"
  have j: "join_tasks w = Inr [r1, r2, r3, r4]"
    using assms(2) r1(1) r2(1) r3(1) r4(1) by (simp add: join_tasks_def bind_exn_simps)
  have c: "combine_data (now_at w ''combine'') [r1, r2, r3, r4] = Inr ?b"
    by (rule combine_four [OF source_result_for_source [OF r1(2)]
          source_result_for_source [OF r2(2)] source_result_for_source [OF r3(2)] r4(2)])
  have g: "snd (gather_data w (analyzer_session st)) = Inr ?b"
    using assms(1) j c by (simp add: gather_data_acquired bind_exn_simps)
  have l: "dict_lookup ?b (PStr ''sources'') = Some (PDict ?sources)"
    by (simp add: py_eq_PStr_left)
  from assms(3) have f: "failed_entry (source_entry r1)" "failed_entry (source_entry r2)"
      "failed_entry (source_entry r3)"
    using failed_source_entry [OF r1(2)] failed_source_entry [OF r2(2)]
      failed_source_entry [OF r3(2)]
    by (simp_all add: all_fetches_fail_def)
  have e: "\<forall>sid \<in> {''industry_trends'', ''competitor_data'', ''market_demands''}.
        \<exists>entry. dict_lookup ?sources (PStr sid) = Some entry \<and> failed_entry entry"
    using f by (simp add: py_eq_PStr_left)
  note run = run_after_gather [OF g, of td]
  have s: "\<forall>t ops.
        td_detect_trends td (PDict ?b) = Inr t \<and> td_identify_opportunities td t = Inr ops \<longrightarrow>
        snd (run w td st) =
          Inr (success_result (degraded_report (now_at w ''analyze'')) (PList t) (PList ops)
                 empty_insights)"
    by (simp add: run)
  have x: "\<forall>r. snd (run w td st) = Inr r \<and> dict_lookup r (PStr ''status'') = Some (PStr ''error'') \<longrightarrow>
        (\<exists>e. td_detect_trends td (PDict ?b) = Inl e) \<or>
        (\<exists>t e. td_detect_trends td (PDict ?b) = Inr t \<and>
               td_identify_opportunities td t = Inl e)"
    by (auto simp add: run success_result_def py_eq_PStr_left split: sum.splits)
  from g l e s x show ?thesis by blast
qed

theorem degraded_cycle_succeeds_witness:
  "snd (run offline_world quiet_detector idle_agent) =
     Inr [(PStr ''status'', PStr ''success''),
          (PStr ''market_analysis'', degraded_report ''2024-01-01T00:00:00''),
          (PStr ''trends'', PList []),
          (PStr ''opportunities'', PList []),
          (PStr ''insights'', empty_insights)]"
proof -
  have 1: "session_new offline_world = None" "join_fault offline_world = None"
    by (simp_all add: offline_world_def)
  have 2: "all_fetches_fail offline_world"
    by (simp add: offline_world_def all_fetches_fail_def fetch_failed_def)
  from degraded_cycle_succeeds [OF 1 2, of idle_agent quiet_detector]
  obtain b where
    "\<forall>t ops.
        td_detect_trends quiet_detector (PDict b) = Inr t \<and>
        td_identify_opportunities quiet_detector t = Inr ops \<longrightarrow>
        snd (run offline_world quiet_detector idle_agent) =
          Inr (success_result (degraded_report (now_at offline_world ''analyze'')) (PList t)
                 (PList ops) empty_insights)"
    by blast
  then have "snd (run offline_world quiet_detector idle_agent) =
          Inr (success_result (degraded_report (now_at offline_world ''analyze'')) (PList [])
                 (PList []) empty_insights)"
    by (simp add: quiet_detector_def identify_opportunities_def)
  then show ?thesis
    by (simp add: success_result_def offline_world_def)
qed

end
